theory Spec2Isabelle
  imports Complex_Main "HOL-Library.Sublist" "HOL-Library.Multiset"
begin

section \<open>Data model\<close>

text \<open>
  The dashboard of \<^verbatim>\<open>app.py\<close> works on a pandas DataFrame read from a CSV file.
  A float cell is either a number or NaN (what pandas stores for a missing cell and
  returns as the mean of no values). Numbers are idealised as reals: no claim below
  depends on rounding. Comparisons follow IEEE 754: every comparison with NaN is false.
\<close>

datatype pyfloat = Fin real | NaN

fun fle :: "pyfloat \<Rightarrow> pyfloat \<Rightarrow> bool" where
  "fle (Fin a) (Fin b) = (a \<le> b)"
| "fle _ _ = False"

fun fge :: "pyfloat \<Rightarrow> pyfloat \<Rightarrow> bool" where
  "fge (Fin a) (Fin b) = (a \<ge> b)"
| "fge _ _ = False"

text \<open>
  The exceptions the modelled code can raise. The first five are the ones of
  \<^verbatim>\<open>pd.read_csv\<close>; \<open>KeyError\<close> carries the absent label; \<open>ValueError\<close> is raised by
  the assignment of a whole DataFrame to one column, \<open>TypeError\<close> by \<open>nlargest\<close> on a
  column of dtype object.
\<close>

datatype error =
  FileNotFoundError | PermissionError | EmptyDataError | ParserError | UnicodeDecodeError
  | KeyError string | ValueError | TypeError

text \<open>
  One row of the CSV, with the dtypes of the dataset: the four indicators are booleans,
  \<open>price\<close> is a float column, \<open>title_length\<close> an integer column.
\<close>

record book =
  title :: string
  price :: pyfloat
  title_length :: int
  price_category :: string
  rating_four :: bool
  rating_three :: bool
  rating_two :: bool
  rating_one :: bool

text \<open>A row of the table after \<open>load_data\<close>: the same columns and \<open>rating_score\<close>.\<close>

record scored = book +
  rating_score :: int

text \<open>
  A table: the column labels it has and its rows in file order. A row carries a value
  for every field of its type; a field whose label is not among \<open>columns\<close> is a column
  the file does not have, and every access by label checks the label first, as pandas does.
\<close>

record 'r frame =
  columns :: "string list"
  rows :: "'r list"

text \<open>
  A DataFrame read from a file also has the dtype \<^verbatim>\<open>read_csv\<close> inferred for the
  \<open>price\<close> column: float64 when the file has data rows (their prices are floats), object
  when the file has a header line only, since there is then no value to infer a dtype from.
  Selecting rows keeps the dtype.
\<close>

datatype dtype = Float64 | Object

record 'r dataframe = "'r frame" +
  price_dtype :: dtype

section \<open>Loading and rating derivation\<close>

text \<open>
  The file at the fixed path of \<open>load_data\<close>: it is missing, or may not be opened, or
  opens but is not well-formed CSV, or is not UTF-8, or it parses: \<open>Csv f\<close> where \<open>f\<close>
  has the labels of the header line and the data rows. A file with nothing to parse (zero
  bytes) has no labels.
\<close>

datatype source = NotFound | NoPermission | Malformed | Undecodable | Csv "book frame"

definition infer_dtypes :: "book frame \<Rightarrow> book dataframe" where
  "infer_dtypes f =
     \<lparr>columns = columns f, rows = rows f,
      price_dtype = (if rows f = [] then Object else Float64)\<rparr>"

text \<open>\<^verbatim>\<open>pd.read_csv(path)\<close>, with the exception pandas raises for each kind of failure.\<close>

definition read_csv :: "source \<Rightarrow> error + book dataframe" where
  "read_csv src =
     (case src of
        NotFound \<Rightarrow> Inl FileNotFoundError
      | NoPermission \<Rightarrow> Inl PermissionError
      | Malformed \<Rightarrow> Inl ParserError
      | Undecodable \<Rightarrow> Inl UnicodeDecodeError
      | Csv f \<Rightarrow> if columns f = [] then Inl EmptyDataError else Inr (infer_dtypes f))"

text \<open>\<^verbatim>\<open>row[name]\<close> on the Series that \<^verbatim>\<open>df.apply(..., axis=1)\<close> passes: KeyError when the label is absent.\<close>

definition getitem :: "string list \<Rightarrow> string \<Rightarrow> 'a \<Rightarrow> error + 'a" where
  "getitem cols name v = (if name \<in> set cols then Inr v else Inl (KeyError name))"

text \<open>
  \<^verbatim>\<open>
  def get_rating(row):
      if row['rating_four']: return 4
      if row['rating_one']: return 1
      if row['rating_three']: return 3
      if row['rating_two']: return 2
      return 5 # Assume rest are 5 stars
  \<close>
\<close>

definition get_rating :: "string list \<Rightarrow> 'a book_scheme \<Rightarrow> error + int" where
  "get_rating cols row =
     (case getitem cols ''rating_four'' (rating_four row) of
        Inl e \<Rightarrow> Inl e
      | Inr b4 \<Rightarrow> if b4 then Inr 4 else
     (case getitem cols ''rating_one'' (rating_one row) of
        Inl e \<Rightarrow> Inl e
      | Inr b1 \<Rightarrow> if b1 then Inr 1 else
     (case getitem cols ''rating_three'' (rating_three row) of
        Inl e \<Rightarrow> Inl e
      | Inr b3 \<Rightarrow> if b3 then Inr 3 else
     (case getitem cols ''rating_two'' (rating_two row) of
        Inl e \<Rightarrow> Inl e
      | Inr b2 \<Rightarrow> if b2 then Inr 2 else Inr 5))))"

text \<open>\<open>f\<close> on each row in order; the first exception ends the traversal.\<close>

fun apply_rows :: "('r \<Rightarrow> error + 's) \<Rightarrow> 'r list \<Rightarrow> error + 's list" where
  "apply_rows f [] = Inr []"
| "apply_rows f (r # rs) =
     (case f r of
        Inl e \<Rightarrow> Inl e
      | Inr s \<Rightarrow> (case apply_rows f rs of Inl e \<Rightarrow> Inl e | Inr ss \<Rightarrow> Inr (s # ss)))"

text \<open>
  What \<^verbatim>\<open>df.apply(f, axis=1)\<close> returns: a Series of the results, or a copy of the
  DataFrame itself.
\<close>

datatype 's applied = AsSeries "'s list" | AsFrame

text \<open>
  \<^verbatim>\<open>df.apply(f, axis=1)\<close>. On a frame with rows, \<open>f\<close> is called on each row and an
  exception of \<open>f\<close> propagates. On a frame with no rows pandas calls \<open>f\<close> once, on a row
  of the frame's labels whose cells are all NaN, to see what \<open>f\<close> returns: an exception
  of that call is swallowed and the result is a copy of the (empty) frame; when the call
  returns a value the result is an empty Series.
\<close>

definition apply_axis1 :: "('r \<Rightarrow> error + 's) \<Rightarrow> 'r \<Rightarrow> 'r list \<Rightarrow> error + 's applied" where
  "apply_axis1 f nan_row rs =
     (if rs = [] then
        (case f nan_row of Inl e \<Rightarrow> Inr AsFrame | Inr s \<Rightarrow> Inr (AsSeries []))
      else
        (case apply_rows f rs of Inl e \<Rightarrow> Inl e | Inr ss \<Rightarrow> Inr (AsSeries ss)))"

text \<open>
  The all-NaN row of that call. \<open>get_rating\<close> only tests its cells for truth, and NaN is
  true in Python (\<^verbatim>\<open>bool(float('nan'))\<close>), so each indicator of the row is \<open>True\<close>.
\<close>

definition all_nan_row :: book where
  "all_nan_row =
     \<lparr>title = [], price = NaN, title_length = 0, price_category = [],
      rating_four = True, rating_three = True, rating_two = True, rating_one = True\<rparr>"

definition with_score :: "book \<Rightarrow> int \<Rightarrow> scored" where
  "with_score r s =
     \<lparr>title = title r, price = price r, title_length = title_length r,
      price_category = price_category r, rating_four = rating_four r,
      rating_three = rating_three r, rating_two = rating_two r,
      rating_one = rating_one r, rating_score = s\<rparr>"

text \<open>\<^verbatim>\<open>df['rating_score'] = scores\<close>: the column is added (or replaced) in every row.\<close>

definition set_rating_score :: "book dataframe \<Rightarrow> int list \<Rightarrow> scored dataframe" where
  "set_rating_score df scores =
     \<lparr>columns = (if ''rating_score'' \<in> set (columns df) then columns df
                 else columns df @ [''rating_score'']),
      rows = map2 with_score (rows df) scores,
      price_dtype = price_dtype df\<rparr>"

text \<open>
  \<^verbatim>\<open>df['rating_score'] = value\<close> for what \<open>apply\<close> returned. A Series sets the column.
  A DataFrame (the copy of the frame with no rows) sets it only when it has exactly one
  column, which then gives the values (none); with any other number of columns pandas
  raises ValueError.
\<close>

definition setitem_rating_score :: "book dataframe \<Rightarrow> int applied \<Rightarrow> error + scored dataframe" where
  "setitem_rating_score df v =
     (case v of
        AsSeries scores \<Rightarrow> Inr (set_rating_score df scores)
      | AsFrame \<Rightarrow>
          if length (columns df) = 1 then Inr (set_rating_score df []) else Inl ValueError)"

text \<open>
  \<^verbatim>\<open>
  def load_data():
      df = pd.read_csv('cleaned_books_data (1).csv')
      ...
      df['rating_score'] = df.apply(get_rating, axis=1)
      return df
  \<close>
\<close>

definition load_data :: "source \<Rightarrow> error + scored dataframe" where
  "load_data src =
     (case read_csv src of
        Inl e \<Rightarrow> Inl e
      | Inr df \<Rightarrow>
          (case apply_axis1 (get_rating (columns df)) all_nan_row (rows df) of
             Inl e \<Rightarrow> Inl e
           | Inr v \<Rightarrow> setitem_rating_score df v))"

text \<open>
  The rating policy in the specification's words: the indicators are tried in the order
  four, one, three, two; the first one that is true gives the score; 5 when none is.
\<close>

definition rating_policy :: "'a book_scheme \<Rightarrow> int" where
  "rating_policy r =
     (case find fst [(rating_four r, 4), (rating_one r, 1), (rating_three r, 3), (rating_two r, 2)] of
        Some (b, s) \<Rightarrow> s
      | None \<Rightarrow> 5)"

definition indicator_columns :: "string list" where
  "indicator_columns = [''rating_four'', ''rating_one'', ''rating_three'', ''rating_two'']"

text \<open>
  The labels \<open>get_rating\<close> looks up for a row: each \<^verbatim>\<open>if\<close> that returns ends the
  function, so a later indicator is read only when the earlier ones are false.
\<close>

definition columns_read :: "'a book_scheme \<Rightarrow> string list" where
  "columns_read r =
     ''rating_four'' # (if rating_four r then [] else
     ''rating_one'' # (if rating_one r then [] else
     ''rating_three'' # (if rating_three r then [] else [''rating_two''])))"

section \<open>The filter\<close>

text \<open>\<^verbatim>\<open>df[name]\<close>: the column as a list of values, KeyError when the label is absent.\<close>

definition getcol :: "string \<Rightarrow> ('r \<Rightarrow> 'a) \<Rightarrow> ('r, 'z) frame_scheme \<Rightarrow> error + 'a list" where
  "getcol name field df =
     (if name \<in> set (columns df) then Inr (map field (rows df)) else Inl (KeyError name))"

text \<open>The element-wise operations on columns that the filter uses; each gives a boolean mask.\<close>

definition ge_mask :: "pyfloat list \<Rightarrow> pyfloat \<Rightarrow> bool list" where
  "ge_mask xs v = map (\<lambda>x. fge x v) xs"

definition le_mask :: "pyfloat list \<Rightarrow> pyfloat \<Rightarrow> bool list" where
  "le_mask xs v = map (\<lambda>x. fle x v) xs"

definition isin :: "'a list \<Rightarrow> 'a list \<Rightarrow> bool list" where
  "isin xs vs = map (\<lambda>x. x \<in> set vs) xs"

definition mask_and :: "bool list \<Rightarrow> bool list \<Rightarrow> bool list" where
  "mask_and a b = map2 (\<and>) a b"

text \<open>
  \<^verbatim>\<open>df[mask]\<close>: the rows whose mask entry is true, in order, under the same columns and
  dtypes.
\<close>

definition boolean_index :: "('r, 'z) frame_scheme \<Rightarrow> bool list \<Rightarrow> ('r, 'z) frame_scheme" where
  "boolean_index df m = df\<lparr>rows := map fst (filter snd (zip (rows df) m))\<rparr>"

text \<open>
  \<^verbatim>\<open>
  filtered_df = df[
      (df['price'] >= price_range[0]) &
      (df['price'] <= price_range[1]) &
      (df['price_category'].isin(selected_cat)) &
      (df['rating_score'].isin(selected_ratings))]
  \<close>
\<close>

definition filtered_df ::
  "pyfloat \<times> pyfloat \<Rightarrow> string list \<Rightarrow> int list \<Rightarrow> scored dataframe \<Rightarrow>
     error + scored dataframe" where
  "filtered_df price_range selected_cat selected_ratings df =
     (case getcol ''price'' price df of
        Inl e \<Rightarrow> Inl e
      | Inr p \<Rightarrow>
     (case getcol ''price_category'' price_category df of
        Inl e \<Rightarrow> Inl e
      | Inr c \<Rightarrow>
     (case getcol ''rating_score'' rating_score df of
        Inl e \<Rightarrow> Inl e
      | Inr s \<Rightarrow>
          Inr (boolean_index df
                (mask_and
                  (mask_and
                    (mask_and (ge_mask p (fst price_range)) (le_mask p (snd price_range)))
                    (isin c selected_cat))
                  (isin s selected_ratings))))))"

text \<open>The columns the filter reads.\<close>

definition filter_columns :: "string list" where
  "filter_columns = [''price'', ''price_category'', ''rating_score'']"

text \<open>The inclusion predicate of the specification, for one record.\<close>

definition matches :: "pyfloat \<times> pyfloat \<Rightarrow> string list \<Rightarrow> int list \<Rightarrow> scored \<Rightarrow> bool" where
  "matches price_range selected_cat selected_ratings r \<longleftrightarrow>
     fle (fst price_range) (price r) \<and> fle (price r) (snd price_range) \<and>
     price_category r \<in> set selected_cat \<and> rating_score r \<in> set selected_ratings"

section \<open>Aggregations\<close>

fun fin_values :: "pyfloat list \<Rightarrow> real list" where
  "fin_values [] = []"
| "fin_values (Fin a # xs) = a # fin_values xs"
| "fin_values (NaN # xs) = fin_values xs"

text \<open>\<^verbatim>\<open>Series.mean()\<close>: NaN entries are skipped; the mean of no values is NaN.\<close>

definition mean :: "pyfloat list \<Rightarrow> pyfloat" where
  "mean xs =
     (let ys = fin_values xs
      in if ys = [] then NaN else Fin (sum_list ys / real (length ys)))"

text \<open>\<^verbatim>\<open>filtered_df['price'].mean()\<close> of the second KPI.\<close>

definition avg_price :: "scored dataframe \<Rightarrow> error + pyfloat" where
  "avg_price view =
     (case getcol ''price'' price view of Inl e \<Rightarrow> Inl e | Inr p \<Rightarrow> Inr (mean p))"

text \<open>\<^verbatim>\<open>DataFrame.empty\<close>: no rows or no columns.\<close>

definition frame_empty :: "('r, 'z) frame_scheme \<Rightarrow> bool" where
  "frame_empty df \<longleftrightarrow> rows df = [] \<or> columns df = []"

text \<open>
  \<^verbatim>\<open>avg_len = filtered_df['title_length'].mean() if not filtered_df.empty else 0\<close>
\<close>

definition avg_len :: "scored dataframe \<Rightarrow> error + pyfloat" where
  "avg_len view =
     (if \<not> frame_empty view then
        (case getcol ''title_length'' (\<lambda>r. Fin (real_of_int (title_length r))) view of
           Inl e \<Rightarrow> Inl e
         | Inr l \<Rightarrow> Inr (mean l))
      else Inr (Fin 0))"

section \<open>The leaderboard\<close>

text \<open>
  \<^verbatim>\<open>DataFrame.nlargest(n, column)\<close> is pandas' own. It looks the column up (KeyError
  when the label is absent), refuses a column of dtype object with a TypeError, also when
  the frame has no rows, and otherwise returns the first \<open>n\<close> rows in descending order of
  the column, ties in their original order (\<open>keep='first'\<close>), NaN after every number.
  The ordering is modelled as a stable insertion sort followed by \<open>take\<close>.
\<close>

fun before :: "pyfloat \<Rightarrow> pyfloat \<Rightarrow> bool" where
  "before (Fin a) (Fin b) = (a \<ge> b)"
| "before (Fin a) NaN = True"
| "before NaN (Fin b) = False"
| "before NaN NaN = True"

fun insert_desc :: "('r \<Rightarrow> pyfloat) \<Rightarrow> 'r \<Rightarrow> 'r list \<Rightarrow> 'r list" where
  "insert_desc k x [] = [x]"
| "insert_desc k x (y # ys) =
     (if before (k x) (k y) then x # y # ys else y # insert_desc k x ys)"

definition sort_desc :: "('r \<Rightarrow> pyfloat) \<Rightarrow> 'r list \<Rightarrow> 'r list" where
  "sort_desc k xs = foldr (insert_desc k) xs []"

definition nlargest ::
  "nat \<Rightarrow> string \<Rightarrow> ('r \<Rightarrow> pyfloat) \<Rightarrow> dtype \<Rightarrow> ('r, 'z) frame_scheme \<Rightarrow>
     error + ('r, 'z) frame_scheme" where
  "nlargest n name field column_dtype df =
     (if name \<notin> set (columns df) then Inl (KeyError name)
      else if column_dtype = Object then Inl TypeError
      else Inr (df\<lparr>rows := take n (sort_desc field (rows df))\<rparr>))"

text \<open>\<^verbatim>\<open>df[['title', 'price']]\<close>: the two columns, KeyError when one is absent.\<close>

definition title_price :: "scored dataframe \<Rightarrow> error + (string \<times> pyfloat) frame" where
  "title_price df =
     (if ''title'' \<notin> set (columns df) then Inl (KeyError ''title'')
      else if ''price'' \<notin> set (columns df) then Inl (KeyError ''price'')
      else Inr \<lparr>columns = [''title'', ''price''],
                rows = map (\<lambda>r. (title r, price r)) (rows df)\<rparr>)"

text \<open>\<^verbatim>\<open>top_10 = filtered_df.nlargest(10, 'price')[['title', 'price']]\<close>\<close>

definition top_10 :: "scored dataframe \<Rightarrow> error + (string \<times> pyfloat) frame" where
  "top_10 view =
     (case nlargest 10 ''price'' price (price_dtype view) view of
        Inl e \<Rightarrow> Inl e
      | Inr t \<Rightarrow> title_price t)"

section \<open>The scenario of the specification\<close>

definition scenario_df :: "book frame" where
  "scenario_df =
     \<lparr>columns = [''title'', ''price'', ''title_length'', ''price_category'',
                 ''rating_four'', ''rating_three'', ''rating_two'', ''rating_one''],
      rows =
        [\<lparr>title = ''A'', price = Fin 10, title_length = 1, price_category = ''Low'',
          rating_four = False, rating_three = False, rating_two = False, rating_one = False\<rparr>,
         \<lparr>title = ''Bb'', price = Fin 50, title_length = 2, price_category = ''Medium'',
          rating_four = False, rating_three = True, rating_two = False, rating_one = False\<rparr>,
         \<lparr>title = ''Ccc'', price = Fin 200, title_length = 3, price_category = ''High'',
          rating_four = True, rating_three = False, rating_two = False, rating_one = False\<rparr>]\<rparr>"

definition scenario_loaded :: "scored dataframe" where
  "scenario_loaded =
     \<lparr>columns = [''title'', ''price'', ''title_length'', ''price_category'',
                 ''rating_four'', ''rating_three'', ''rating_two'', ''rating_one'',
                 ''rating_score''],
      rows =
        [\<lparr>title = ''A'', price = Fin 10, title_length = 1, price_category = ''Low'',
          rating_four = False, rating_three = False, rating_two = False, rating_one = False,
          rating_score = 5\<rparr>,
         \<lparr>title = ''Bb'', price = Fin 50, title_length = 2, price_category = ''Medium'',
          rating_four = False, rating_three = True, rating_two = False, rating_one = False,
          rating_score = 3\<rparr>,
         \<lparr>title = ''Ccc'', price = Fin 200, title_length = 3, price_category = ''High'',
          rating_four = True, rating_three = False, rating_two = False, rating_one = False,
          rating_score = 4\<rparr>],
      price_dtype = Float64\<rparr>"

text \<open>The scenario's file without a \<open>price\<close> column, and without \<open>rating_four\<close>.\<close>

definition no_price_df :: "book frame" where
  "no_price_df = scenario_df\<lparr>columns :=
     [''title'', ''rating_four'', ''rating_three'', ''rating_two'', ''rating_one'']\<rparr>"

definition no_four_df :: "book frame" where
  "no_four_df = scenario_df\<lparr>columns :=
     [''title'', ''price'', ''title_length'', ''price_category'',
      ''rating_three'', ''rating_two'', ''rating_one'']\<rparr>"

definition twelve_loaded :: "scored dataframe" where
  "twelve_loaded =
     \<lparr>columns = [''title'', ''price'', ''title_length'', ''price_category'',
                 ''rating_four'', ''rating_three'', ''rating_two'', ''rating_one'',
                 ''rating_score''],
      rows = map (\<lambda>p. \<lparr>title = ''T'', price = Fin p, title_length = 1,
                        price_category = ''Low'', rating_four = True, rating_three = False,
                        rating_two = False, rating_one = False, rating_score = 4\<rparr>)
               [3, 1, 4, 1, 5, 9, 2, 6, 5, 3, 5, 8],
      price_dtype = Float64\<rparr>"

text \<open>The scenario's file without a \<open>title\<close> column, and the table it loads into.\<close>

definition no_title_df :: "book frame" where
  "no_title_df = scenario_df\<lparr>columns :=
     [''price'', ''title_length'', ''price_category'',
      ''rating_four'', ''rating_three'', ''rating_two'', ''rating_one'']\<rparr>"

definition no_title_loaded :: "scored dataframe" where
  "no_title_loaded = scenario_loaded\<lparr>columns :=
     [''price'', ''title_length'', ''price_category'',
      ''rating_four'', ''rating_three'', ''rating_two'', ''rating_one'', ''rating_score'']\<rparr>"

text \<open>A file of twelve books, with ties among the prices, and the table it loads into.\<close>

definition twelve_df :: "book frame" where
  "twelve_df =
     \<lparr>columns = [''title'', ''price'', ''title_length'', ''price_category'',
                 ''rating_four'', ''rating_three'', ''rating_two'', ''rating_one''],
      rows = map (\<lambda>p. \<lparr>title = ''T'', price = Fin p, title_length = 1,
                        price_category = ''Low'', rating_four = True, rating_three = False,
                        rating_two = False, rating_one = False\<rparr>)
               [3, 1, 4, 1, 5, 9, 2, 6, 5, 3, 5, 8]\<rparr>"

text \<open>
  The scenario's file with its header line only, without and with \<open>rating_four\<close>, and
  the table the latter loads into.
\<close>

definition header_only_no_four_df :: "book frame" where
  "header_only_no_four_df = no_four_df\<lparr>rows := []\<rparr>"

definition header_only_df :: "book frame" where
  "header_only_df = scenario_df\<lparr>rows := []\<rparr>"

definition header_only_loaded :: "scored dataframe" where
  "header_only_loaded =
     \<lparr>columns = [''title'', ''price'', ''title_length'', ''price_category'',
                 ''rating_four'', ''rating_three'', ''rating_two'', ''rating_one'',
                 ''rating_score''],
      rows = [],
      price_dtype = Object\<rparr>"

section \<open>Rating derivation: lemmas\<close>

lemma get_rating_policy:
  "set indicator_columns \<subseteq> set cols \<Longrightarrow> get_rating cols r = Inr (rating_policy r)"
  by (simp add: get_rating_def getitem_def rating_policy_def indicator_columns_def)

lemma rating_policy_cases:
  "rating_policy r =
     (if rating_four r then 4 else if rating_one r then 1
      else if rating_three r then 3 else if rating_two r then 2 else 5)"
  by (simp add: rating_policy_def)

lemma get_rating_reads:
  "get_rating cols r =
     (case find (\<lambda>c. c \<notin> set cols) (columns_read r) of
        Some c \<Rightarrow> Inl (KeyError c)
      | None \<Rightarrow> Inr (rating_policy r))"
  by (simp add: get_rating_def getitem_def columns_read_def rating_policy_def)

lemma get_rating_all_nan_row:
  "get_rating cols all_nan_row =
     (if ''rating_four'' \<in> set cols then Inr 4 else Inl (KeyError ''rating_four''))"
  by (simp add: get_rating_def getitem_def all_nan_row_def)

lemma rating_policy_range: "rating_policy r \<in> {1, 2, 3, 4, 5}"
  by (simp add: rating_policy_def)

lemma columns_read_indicator: "set (columns_read r) \<subseteq> set indicator_columns"
  by (simp add: columns_read_def indicator_columns_def)

lemma get_rating_Inl_iff:
  "(\<exists>e. get_rating cols r = Inl e) \<longleftrightarrow> \<not> set (columns_read r) \<subseteq> set cols"
  by (simp add: get_rating_def getitem_def columns_read_def)

lemma get_rating_Inl_KeyError:
  "get_rating cols r = Inl e \<Longrightarrow> \<exists>c\<in>set indicator_columns. c \<notin> set cols \<and> e = KeyError c"
  by (auto simp: get_rating_def getitem_def indicator_columns_def split: if_splits)

text \<open>The traversal of the rows.\<close>

lemma apply_rows_total:
  "(\<And>r. f r = Inr (g r)) \<Longrightarrow> apply_rows f rs = Inr (map g rs)"
  by (induction rs) simp_all

lemma apply_rows_length:
  "apply_rows f rs = Inr ss \<Longrightarrow> length ss = length rs"
  by (induction rs arbitrary: ss) (auto split: sum.splits)

lemma apply_rows_Inl:
  "(\<exists>e. apply_rows f rs = Inl e) \<longleftrightarrow> (\<exists>r\<in>set rs. \<exists>e. f r = Inl e)"
  by (induction rs) (auto split: sum.splits)

lemma apply_rows_Inl_from:
  "apply_rows f rs = Inl e \<Longrightarrow> \<exists>r\<in>set rs. f r = Inl e"
  by (induction rs) (auto split: sum.splits)

text \<open>\<open>apply\<close>: a function that never raises gives the Series of its results.\<close>

lemma apply_axis1_total:
  assumes "\<And>r. f r = Inr (g r)"
  shows "apply_axis1 f d rs = Inr (AsSeries (map g rs))"
  by (simp add: apply_axis1_def assms apply_rows_total [of f g, OF assms])

lemma apply_axis1_rows:
  "rs \<noteq> [] \<Longrightarrow>
   apply_axis1 f d rs = (case apply_rows f rs of Inl e \<Rightarrow> Inl e | Inr ss \<Rightarrow> Inr (AsSeries ss))"
  by (simp add: apply_axis1_def)

lemma apply_axis1_no_rows:
  "apply_axis1 f d [] = (case f d of Inl e \<Rightarrow> Inr AsFrame | Inr s \<Rightarrow> Inr (AsSeries []))"
  by (simp add: apply_axis1_def)

text \<open>The column assignment.\<close>

lemma truncate_with_score: "book.truncate (with_score r s) = r"
  by (simp add: book.truncate_def with_score_def)

lemma map2_with_score_truncate:
  "length ss = length rs \<Longrightarrow> map book.truncate (map2 with_score rs ss) = rs"
  by (induction rs ss rule: list_induct2') (simp_all add: truncate_with_score)

lemma map2_with_score_score:
  "length ss = length rs \<Longrightarrow> map rating_score (map2 with_score rs ss) = ss"
  by (induction rs ss rule: list_induct2') (simp_all add: with_score_def)

lemma rows_set_rating_score:
  "rows (set_rating_score df ss) = map2 with_score (rows df) ss"
  by (simp add: set_rating_score_def)

lemma rows_infer_dtypes: "rows (infer_dtypes f) = rows f"
  by (simp add: infer_dtypes_def)

lemma columns_infer_dtypes: "columns (infer_dtypes f) = columns f"
  by (simp add: infer_dtypes_def)

lemma set_rating_score_scores:
  "length ss = length (rows df) \<Longrightarrow> map rating_score (rows (set_rating_score df ss)) = ss"
  unfolding rows_set_rating_score by (rule map2_with_score_score)

lemma set_rating_score_truncate:
  "length ss = length (rows df) \<Longrightarrow> map book.truncate (rows (set_rating_score df ss)) = rows df"
  unfolding rows_set_rating_score by (rule map2_with_score_truncate)

text \<open>The load.\<close>

lemma load_data_reader_error: "read_csv src = Inl e \<Longrightarrow> load_data src = Inl e"
  by (simp add: load_data_def)

lemma read_csv_Csv:
  "columns f \<noteq> [] \<Longrightarrow> read_csv (Csv f) = Inr (infer_dtypes f)"
  by (simp add: read_csv_def)

lemma load_data_Csv:
  "columns f \<noteq> [] \<Longrightarrow>
   load_data (Csv f) =
     (case apply_axis1 (get_rating (columns f)) all_nan_row (rows f) of
        Inl e \<Rightarrow> Inl e
      | Inr v \<Rightarrow> setitem_rating_score (infer_dtypes f) v)"
  by (simp add: load_data_def read_csv_Csv columns_infer_dtypes rows_infer_dtypes)

lemma load_data_scenario: "load_data (Csv scenario_df) = Inr scenario_loaded"
  by (simp add: load_data_def read_csv_def infer_dtypes_def apply_axis1_def
      scenario_df_def scenario_loaded_def get_rating_def getitem_def
      setitem_rating_score_def set_rating_score_def with_score_def)

lemma indicator_columns_nonempty:
  "set indicator_columns \<subseteq> set cols \<Longrightarrow> cols \<noteq> []"
  by (auto simp: indicator_columns_def)

lemma load_data_total:
  assumes "set indicator_columns \<subseteq> set (columns df)"
  shows "load_data (Csv df) =
           Inr (set_rating_score (infer_dtypes df) (map rating_policy (rows df)))"
proof -
  have "apply_axis1 (get_rating (columns df)) all_nan_row (rows df) =
          Inr (AsSeries (map rating_policy (rows df)))"
    using assms by (intro apply_axis1_total get_rating_policy)
  then show ?thesis
    using indicator_columns_nonempty [OF assms]
    by (simp add: load_data_Csv setitem_rating_score_def)
qed

lemma load_data_Inr_rows:
  assumes "load_data (Csv df) = Inr out"
  shows "map book.truncate (rows out) = rows df"
proof -
  have c: "columns df \<noteq> []"
    using assms by (auto simp: load_data_def read_csv_def split: if_splits)
  show ?thesis
  proof (cases "rows df = []")
    case True
    with assms c have "rows out = []"
      by (auto simp: load_data_Csv apply_axis1_no_rows setitem_rating_score_def
          rows_set_rating_score split: sum.splits if_splits)
    with True show ?thesis by simp
  next
    case False
    with assms c obtain ss where ss: "apply_rows (get_rating (columns df)) (rows df) = Inr ss"
      and out: "out = set_rating_score (infer_dtypes df) ss"
      by (auto simp: load_data_Csv apply_axis1_rows setitem_rating_score_def split: sum.splits)
    from ss have "length ss = length (rows (infer_dtypes df))"
      by (simp add: apply_rows_length rows_infer_dtypes)
    then have "map book.truncate (rows (set_rating_score (infer_dtypes df) ss)) =
        rows (infer_dtypes df)"
      by (rule set_rating_score_truncate)
    then show ?thesis by (simp add: out rows_infer_dtypes)
  qed
qed

text \<open>A file with data rows: the load fails exactly when a row's derivation does.\<close>

lemma load_data_rows_Inl:
  assumes "columns df \<noteq> []" "rows df \<noteq> []"
  shows "load_data (Csv df) = Inl e \<longleftrightarrow> apply_rows (get_rating (columns df)) (rows df) = Inl e"
  using assms
  by (auto simp: load_data_Csv apply_axis1_rows setitem_rating_score_def split: sum.splits)

text \<open>A file with a header line only.\<close>

lemma load_data_header_only:
  assumes "columns df \<noteq> []" "rows df = []"
  shows "load_data (Csv df) =
     (if ''rating_four'' \<in> set (columns df) \<or> length (columns df) = 1
      then Inr (set_rating_score (infer_dtypes df) [])
      else Inl ValueError)"
  using assms
  by (simp add: load_data_Csv apply_axis1_no_rows get_rating_all_nan_row
      setitem_rating_score_def columns_infer_dtypes)

lemma load_data_price_dtype:
  assumes "load_data (Csv df) = Inr out"
  shows "price_dtype out = (if rows df = [] then Object else Float64)"
proof -
  have c: "columns df \<noteq> []"
    using assms by (auto simp: load_data_def read_csv_def split: if_splits)
  from assms c obtain ss where "out = set_rating_score (infer_dtypes df) ss"
    by (auto simp: load_data_Csv setitem_rating_score_def split: sum.splits applied.splits if_splits)
  then show ?thesis
    by (simp add: set_rating_score_def infer_dtypes_def)
qed

section \<open>The filter: lemmas\<close>

text \<open>The masks of the filter select the rows that satisfy \<open>matches\<close>.\<close>

lemma fge_fle: "fge x y = fle y x"
  by (cases x; cases y) simp_all

lemma boolean_index_map:
  "map fst (filter snd (zip rs (map P rs))) = filter P rs"
  by (induction rs) simp_all

lemma mask_and_map:
  "mask_and (map P rs) (map Q rs) = map (\<lambda>r. P r \<and> Q r) rs"
  by (induction rs) (simp_all add: mask_and_def)

lemma ge_mask_map: "ge_mask (map f rs) v = map (\<lambda>r. fge (f r) v) rs"
  by (simp add: ge_mask_def)

lemma le_mask_map: "le_mask (map f rs) v = map (\<lambda>r. fle (f r) v) rs"
  by (simp add: le_mask_def)

lemma isin_map: "isin (map f rs) vs = map (\<lambda>r. f r \<in> set vs) rs"
  by (simp add: isin_def)

lemma filtered_df_KeyError:
  "\<not> set filter_columns \<subseteq> set (columns df) \<Longrightarrow>
   \<exists>c\<in>set filter_columns. filtered_df pr cats rts df = Inl (KeyError c)"
  by (auto simp: filtered_df_def getcol_def filter_columns_def)

lemma filtered_df_filter:
  assumes "set filter_columns \<subseteq> set (columns df)"
  shows "filtered_df pr cats rts df = Inr (df\<lparr>rows := filter (matches pr cats rts) (rows df)\<rparr>)"
proof -
  have m: "(\<lambda>r. ((fge (price r) (fst pr) \<and> fle (price r) (snd pr)) \<and>
              price_category r \<in> set cats) \<and> rating_score r \<in> set rts) = matches pr cats rts"
    by (auto simp: matches_def fge_fle fun_eq_iff)
  from assms have c: "''price'' \<in> set (columns df)" "''price_category'' \<in> set (columns df)"
    "''rating_score'' \<in> set (columns df)"
    by (simp_all add: filter_columns_def)
  show ?thesis
    unfolding filtered_df_def getcol_def
    by (simp only: c if_True sum.case ge_mask_map le_mask_map isin_map mask_and_map
        boolean_index_def boolean_index_map m)
qed

lemma matches_set_cong:
  "set cats' = set cats \<Longrightarrow> set rts' = set rts \<Longrightarrow> matches pr cats' rts' = matches pr cats rts"
  by (simp add: matches_def fun_eq_iff)

lemma filtered_df_set_cong:
  assumes "set cats' = set cats" "set rts' = set rts"
  shows "filtered_df pr cats' rts' df = filtered_df pr cats rts df"
proof (cases "set filter_columns \<subseteq> set (columns df)")
  case True
  then show ?thesis
    by (simp add: filtered_df_filter matches_set_cong [OF assms])
next
  case False
  then show ?thesis
    by (auto simp: filtered_df_def getcol_def filter_columns_def)
qed

section \<open>Aggregations and leaderboard: lemmas\<close>

lemma before_total: "before x y \<or> before y x"
  by (cases x; cases y) auto

lemma before_trans: "before x y \<Longrightarrow> before y z \<Longrightarrow> before x z"
  by (cases x; cases y; cases z) auto

lemma before_Fin: "before (Fin a) (Fin b) = fge (Fin a) (Fin b)"
  by simp

lemma mset_insert_desc: "mset (insert_desc k x xs) = add_mset x (mset xs)"
  by (induction xs) simp_all

lemma set_insert_desc: "set (insert_desc k x xs) = insert x (set xs)"
  by (induction xs) auto

lemma sorted_insert_desc:
  "sorted_wrt (\<lambda>a b. before (k a) (k b)) xs \<Longrightarrow>
   sorted_wrt (\<lambda>a b. before (k a) (k b)) (insert_desc k x xs)"
proof (induction xs)
  case Nil
  then show ?case by simp
next
  case (Cons y ys)
  show ?case
  proof (cases "before (k x) (k y)")
    case True
    with Cons.prems show ?thesis
      by (auto intro: before_trans)
  next
    case False
    then have "before (k y) (k x)" using before_total by blast
    with False Cons show ?thesis
      by (auto simp: set_insert_desc)
  qed
qed

lemma mset_sort_desc: "mset (sort_desc k xs) = mset xs"
  by (induction xs) (simp_all add: sort_desc_def mset_insert_desc)

lemma sorted_sort_desc: "sorted_wrt (\<lambda>a b. before (k a) (k b)) (sort_desc k xs)"
  by (induction xs) (simp_all add: sort_desc_def sorted_insert_desc)

lemma length_sort_desc: "length (sort_desc k xs) = length xs"
  by (metis mset_sort_desc size_mset)

lemma take_before_drop:
  assumes "sorted_wrt R s" "a \<in> set (take n s)" "b \<in> set (drop n s)"
  shows "R a b"
proof -
  have "sorted_wrt R (take n s @ drop n s)" using assms(1) by simp
  then show ?thesis using assms(2,3) unfolding sorted_wrt_append by blast
qed

lemma mset_rest:
  assumes "mset s = mset xs"
  shows "mset xs - mset (take n s) = mset (drop n s)"
proof -
  have "mset (take n s) + mset (drop n s) = mset xs"
    using assms by (metis append_take_drop_id mset_append)
  then show ?thesis by (metis add_diff_cancel_left')
qed

lemma filtered_df_Inr_columns:
  "filtered_df pr cats rts df = Inr view \<Longrightarrow> set filter_columns \<subseteq> set (columns df)"
  using filtered_df_KeyError [of df pr cats rts] by auto

lemma matches_price_Fin: "matches pr cats rts r \<Longrightarrow> \<exists>a. price r = Fin a"
  by (cases "price r") (simp_all add: matches_def)

lemma filtered_df_view:
  assumes "filtered_df pr cats rts df = Inr view"
  shows "columns view = columns df" and "rows view = filter (matches pr cats rts) (rows df)"
  using assms filtered_df_filter [OF filtered_df_Inr_columns [OF assms], of pr cats rts]
  by auto

lemma filtered_df_prices_Fin:
  assumes "filtered_df pr cats rts df = Inr view" "r \<in> set (rows view)"
  shows "\<exists>a. price r = Fin a"
proof -
  from assms have "matches pr cats rts r"
    by (simp add: filtered_df_view(2) [OF assms(1)])
  then show ?thesis by (rule matches_price_Fin)
qed

lemma avg_price_empty:
  "rows view = [] \<Longrightarrow> ''price'' \<in> set (columns view) \<Longrightarrow> avg_price view = Inr NaN"
  by (simp add: avg_price_def getcol_def mean_def)

lemma avg_len_empty: "rows view = [] \<Longrightarrow> avg_len view = Inr (Fin 0)"
  by (simp add: avg_len_def frame_empty_def)

lemma sort_twelve:
  "map price (sort_desc price (rows twelve_loaded)) =
     map Fin [9, 8, 6, 5, 5, 5, 4, 3, 3, 2, 1, 1]"
  by (simp add: twelve_loaded_def sort_desc_def)


lemma top_10_twelve:
  "top_10 twelve_loaded =
     Inr \<lparr>columns = [''title'', ''price''],
          rows = map (\<lambda>p. (''T'', Fin p)) [9, 8, 6, 5, 5, 5, 4, 3, 3, 2]\<rparr>"
  by (simp add: top_10_def nlargest_def title_price_def twelve_loaded_def sort_desc_def)

lemma top_10_scenario:
  "top_10 scenario_loaded =
     Inr \<lparr>columns = [''title'', ''price''],
          rows = [(''Ccc'', Fin 200), (''Bb'', Fin 50), (''A'', Fin 10)]\<rparr>"
  by (simp add: top_10_def nlargest_def title_price_def scenario_loaded_def sort_desc_def)

lemma load_data_twelve: "load_data (Csv twelve_df) = Inr twelve_loaded"
  by (simp add: load_data_def read_csv_def infer_dtypes_def apply_axis1_def
      twelve_df_def twelve_loaded_def get_rating_def getitem_def
      setitem_rating_score_def set_rating_score_def with_score_def)

lemma load_data_header_only_df: "load_data (Csv header_only_df) = Inr header_only_loaded"
  by (simp add: load_data_def read_csv_def infer_dtypes_def apply_axis1_def
      header_only_df_def header_only_loaded_def scenario_df_def get_rating_def getitem_def
      all_nan_row_def setitem_rating_score_def set_rating_score_def)

lemma load_data_columns:
  assumes "load_data (Csv f) = Inr df"
  shows "set (columns f) \<subseteq> set (columns df)"
proof -
  have c: "columns f \<noteq> []"
    using assms by (auto simp: load_data_def read_csv_def split: if_splits)
  from assms c obtain ss where "df = set_rating_score (infer_dtypes f) ss"
    by (auto simp: load_data_Csv setitem_rating_score_def split: sum.splits applied.splits if_splits)
  then show ?thesis
    by (auto simp: set_rating_score_def infer_dtypes_def)
qed

text \<open>The leaderboard of a view whose price column is float64.\<close>

lemma top_10_float64:
  assumes "filtered_df pr cats rts df = Inr view" and "''title'' \<in> set (columns df)"
    and "price_dtype df = Float64"
  shows "\<exists>sel t. nlargest 10 ''price'' price (price_dtype view) view = Inr sel \<and>
           top_10 view = Inr t \<and>
           rows t = map (\<lambda>r. (title r, price r)) (rows sel) \<and>
           length (rows t) = min 10 (length (rows view)) \<and>
           mset (rows sel) \<subseteq># mset (rows view) \<and>
           (\<forall>r\<in>#mset (rows sel). \<forall>r'\<in>#mset (rows view) - mset (rows sel).
              fge (price r) (price r')) \<and>
           (length (rows view) < 10 \<longrightarrow> mset (rows sel) = mset (rows view))"
proof -
  let ?s = "sort_desc price (rows view)"
  let ?sel = "view\<lparr>rows := take 10 ?s\<rparr>"
  have v: "view = df\<lparr>rows := filter (matches pr cats rts) (rows df)\<rparr>"
    using assms(1) filtered_df_filter [OF filtered_df_Inr_columns [OF assms(1)], of pr cats rts]
    by simp
  have cols: "''price'' \<in> set (columns view)" "''title'' \<in> set (columns view)"
    using filtered_df_Inr_columns [OF assms(1)] filtered_df_view(1) [OF assms(1)] assms(2)
    by (simp_all add: filter_columns_def)
  have dt: "price_dtype view = Float64"
    using assms(3) by (simp add: v)
  have n: "nlargest 10 ''price'' price (price_dtype view) view = Inr ?sel"
    using cols dt by (simp add: nlargest_def)
  have t: "top_10 view = Inr \<lparr>columns = [''title'', ''price''],
             rows = map (\<lambda>r. (title r, price r)) (rows ?sel)\<rparr>"
    using cols by (simp add: top_10_def n title_price_def)
  have len: "length (take 10 ?s) = min 10 (length (rows view))"
    by (simp add: length_sort_desc min.commute)
  have sub: "mset (take 10 ?s) \<subseteq># mset (rows view)"
    by (metis append_take_drop_id mset_append mset_sort_desc mset_subset_eq_add_left)
  have rest: "mset (rows view) - mset (take 10 ?s) = mset (drop 10 ?s)"
    by (rule mset_rest) (rule mset_sort_desc)
  have ge: "fge (price r) (price r')"
    if "r \<in> set (take 10 ?s)" "r' \<in> set (drop 10 ?s)" for r r'
  proof -
    have b: "before (price r) (price r')"
      using sorted_sort_desc that by (rule take_before_drop)
    have "set ?s = set (rows view)"
      by (metis mset_sort_desc set_mset_mset)
    then have "r \<in> set (rows view)" "r' \<in> set (rows view)"
      using that by (auto dest: in_set_takeD in_set_dropD)
    then obtain a a' where "price r = Fin a" "price r' = Fin a'"
      using filtered_df_prices_Fin [OF assms(1)] by blast
    with b show ?thesis by simp
  qed
  have all: "mset (take 10 ?s) = mset (rows view)" if "length (rows view) < 10"
    using that by (simp add: length_sort_desc mset_sort_desc)
  show ?thesis
    using n t len sub ge all unfolding rest [symmetric]
    by (intro exI [of _ ?sel] exI [of _ "\<lparr>columns = [''title'', ''price''],
             rows = map (\<lambda>r. (title r, price r)) (rows ?sel)\<rparr>"]) (simp add: rest)
qed

lemma load_data_no_title: "load_data (Csv no_title_df) = Inr no_title_loaded"
  by (simp add: load_data_def read_csv_def infer_dtypes_def apply_axis1_def
      no_title_df_def no_title_loaded_def scenario_df_def scenario_loaded_def
      get_rating_def getitem_def setitem_rating_score_def set_rating_score_def with_score_def)

section \<open>Claims about the loader\<close>

text \<open>
  C1. For every record, the derived \<open>rating_score\<close> follows the precedence 4, 1, 3, 2,
  default 5: it is 4 when \<open>rating_four\<close> is true, whatever the other indicators;
  else 1 when \<open>rating_one\<close> is true; else 3 when \<open>rating_three\<close> is true; else 2
  when \<open>rating_two\<close> is true; else 5. Stated on the table \<open>load_data\<close> returns for
  a file that has the four indicator columns.
\<close>

theorem C1_rating_precedence:
  assumes "set indicator_columns \<subseteq> set (columns df)"
  shows "\<exists>out. load_data (Csv df) = Inr out \<and>
           map rating_score (rows out) =
             map (\<lambda>r. if rating_four r then 4 else if rating_one r then 1
                      else if rating_three r then 3 else if rating_two r then 2 else 5)
               (rows df)"
proof -
  have "map rating_score
          (rows (set_rating_score (infer_dtypes df) (map rating_policy (rows df)))) =
          map rating_policy (rows df)"
    by (rule set_rating_score_scores) (simp add: rows_infer_dtypes)
  then show ?thesis
    using load_data_total [OF assms] by (simp add: rating_policy_cases)
qed

theorem C1_witness:
  "set indicator_columns \<subseteq> set (columns scenario_df) \<and>
   (\<exists>out. load_data (Csv scenario_df) = Inr out \<and> map rating_score (rows out) = [5, 3, 4])"
proof -
  have h: "set indicator_columns \<subseteq> set (columns scenario_df)"
    by (simp add: indicator_columns_def scenario_df_def)
  from C1_rating_precedence [OF h] show ?thesis
    using h by (simp add: scenario_df_def)
qed

text \<open>
  C7. The derivation is total: whatever the four indicators of a record are, the load
  returns, every record gets a score among 1, 2, 3, 4, 5, and the rows of the result
  are the rows of the file, none dropped, each with its score added.
\<close>

theorem C7_total:
  assumes "set indicator_columns \<subseteq> set (columns df)"
  shows "\<exists>out. load_data (Csv df) = Inr out \<and>
           map book.truncate (rows out) = rows df \<and>
           (\<forall>r\<in>set (rows out). rating_score r \<in> {1, 2, 3, 4, 5})"
proof -
  let ?out = "set_rating_score (infer_dtypes df) (map rating_policy (rows df))"
  have "map rating_score (rows ?out) = map rating_policy (rows df)"
    by (rule set_rating_score_scores) (simp add: rows_infer_dtypes)
  then have "set (map rating_score (rows ?out)) \<subseteq> {1, 2, 3, 4, 5}"
    using rating_policy_range by auto
  then have "\<forall>r\<in>set (rows ?out). rating_score r \<in> {1, 2, 3, 4, 5}"
    by auto
  moreover have "map book.truncate (rows ?out) = rows (infer_dtypes df)"
    by (rule set_rating_score_truncate) (simp add: rows_infer_dtypes)
  ultimately show ?thesis
    using load_data_total [OF assms] by (simp add: rows_infer_dtypes)
qed

theorem C7_witness:
  "set indicator_columns \<subseteq> set (columns scenario_df) \<and>
   load_data (Csv scenario_df) = Inr scenario_loaded \<and>
   map book.truncate (rows scenario_loaded) = rows scenario_df \<and>
   set (map rating_score (rows scenario_loaded)) \<subseteq> {1, 2, 3, 4, 5}"
proof -
  have h: "set indicator_columns \<subseteq> set (columns scenario_df)"
    by (simp add: indicator_columns_def scenario_df_def)
  from C7_total [OF h] show ?thesis
    using h by (auto simp: load_data_scenario)
qed

text \<open>
  C9. The score depends on the four indicator fields only: two records that agree on
  \<open>rating_four\<close>, \<open>rating_one\<close>, \<open>rating_three\<close> and \<open>rating_two\<close> get
  the same result from \<open>get_rating\<close>, whatever their other fields are (the records
  may even be of different row types).
\<close>

theorem C9_noninterference:
  fixes r :: "'a book_scheme" and r' :: "'b book_scheme"
  assumes "rating_four r = rating_four r'" "rating_one r = rating_one r'"
    "rating_three r = rating_three r'" "rating_two r = rating_two r'"
  shows "get_rating cols r = get_rating cols r'"
  unfolding get_rating_def assms by (rule refl)


theorem C9_witness:
  "get_rating indicator_columns
     \<lparr>title = ''A'', price = Fin 10, title_length = 1, price_category = ''Low'',
      rating_four = False, rating_three = True, rating_two = True, rating_one = False\<rparr> =
   get_rating indicator_columns
     \<lparr>title = ''Bb'', price = NaN, title_length = 2, price_category = ''High'',
      rating_four = False, rating_three = True, rating_two = True, rating_one = False,
      rating_score = 1\<rparr>"
  by (rule C9_noninterference) simp_all

text \<open>
  C4, as stated, fails: the load makes no schema check. A file without the \<open>price\<close>
  column (and without \<open>price_category\<close> and \<open>title_length\<close>) loads.
\<close>

theorem C4_counterexample:
  "''price'' \<notin> set (columns no_price_df) \<and>
   load_data (Csv no_price_df) = Inr (set_rating_score (infer_dtypes no_price_df) [5, 3, 4])"
  by (simp add: no_price_df_def scenario_df_def load_data_def read_csv_def infer_dtypes_def
      apply_axis1_def get_rating_def getitem_def setitem_rating_score_def)

text \<open>
  C4, amended. The load raises what \<^verbatim>\<open>pd.read_csv\<close> raises when the file cannot be
  read: FileNotFoundError, PermissionError, ParserError, UnicodeDecodeError, and
  EmptyDataError for a file with no columns. For a file with data rows it fails exactly
  when the derivation of some row looks up an indicator column the file does not have,
  and the error is then a KeyError naming an absent indicator column. For a file with a
  header line only, of more than one column and without \<open>rating_four\<close>, it fails with a
  ValueError. It returns whenever the four indicator columns are present, whatever other
  columns are absent. A load that returns has every row of the file, in order.
\<close>

theorem C4_load_failures:
  "(\<forall>e. read_csv src = Inl e \<longrightarrow> load_data src = Inl e) \<and>
   load_data NotFound = Inl FileNotFoundError \<and>
   load_data NoPermission = Inl PermissionError \<and>
   load_data Malformed = Inl ParserError \<and>
   load_data Undecodable = Inl UnicodeDecodeError \<and>
   (columns df = [] \<longrightarrow> load_data (Csv df) = Inl EmptyDataError) \<and>
   (columns df \<noteq> [] \<and> rows df \<noteq> [] \<longrightarrow>
      ((\<exists>e. load_data (Csv df) = Inl e) \<longleftrightarrow>
         (\<exists>r\<in>set (rows df). \<not> set (columns_read r) \<subseteq> set (columns df))) \<and>
      (\<forall>e. load_data (Csv df) = Inl e \<longrightarrow>
         (\<exists>c\<in>set indicator_columns. c \<notin> set (columns df) \<and> e = KeyError c))) \<and>
   (rows df = [] \<and> 1 < length (columns df) \<and> ''rating_four'' \<notin> set (columns df) \<longrightarrow>
      load_data (Csv df) = Inl ValueError) \<and>
   (set indicator_columns \<subseteq> set (columns df) \<longrightarrow> (\<exists>out. load_data (Csv df) = Inr out)) \<and>
   (\<forall>out. load_data (Csv df) = Inr out \<longrightarrow> map book.truncate (rows out) = rows df)"
proof -
  have reader: "\<forall>e. read_csv src = Inl e \<longrightarrow> load_data src = Inl e"
    by (simp add: load_data_reader_error)
  have kinds: "load_data NotFound = Inl FileNotFoundError"
    "load_data NoPermission = Inl PermissionError"
    "load_data Malformed = Inl ParserError"
    "load_data Undecodable = Inl UnicodeDecodeError"
    by (simp_all add: load_data_def read_csv_def)
  have empty: "columns df = [] \<longrightarrow> load_data (Csv df) = Inl EmptyDataError"
    by (simp add: load_data_def read_csv_def)
  have with_rows: "((\<exists>e. load_data (Csv df) = Inl e) \<longleftrightarrow>
         (\<exists>r\<in>set (rows df). \<not> set (columns_read r) \<subseteq> set (columns df))) \<and>
      (\<forall>e. load_data (Csv df) = Inl e \<longrightarrow>
         (\<exists>c\<in>set indicator_columns. c \<notin> set (columns df) \<and> e = KeyError c))"
    if h: "columns df \<noteq> [] \<and> rows df \<noteq> []"
  proof (intro conjI allI impI)
    have "(\<exists>e. load_data (Csv df) = Inl e) \<longleftrightarrow>
            (\<exists>e. apply_rows (get_rating (columns df)) (rows df) = Inl e)"
      using h by (simp add: load_data_rows_Inl)
    also have "\<dots> \<longleftrightarrow> (\<exists>r\<in>set (rows df). \<exists>e. get_rating (columns df) r = Inl e)"
      by (rule apply_rows_Inl)
    also have "\<dots> \<longleftrightarrow> (\<exists>r\<in>set (rows df). \<not> set (columns_read r) \<subseteq> set (columns df))"
      by (simp only: get_rating_Inl_iff)
    finally show "(\<exists>e. load_data (Csv df) = Inl e) \<longleftrightarrow>
        (\<exists>r\<in>set (rows df). \<not> set (columns_read r) \<subseteq> set (columns df))" .
  next
    fix e assume "load_data (Csv df) = Inl e"
    then have "apply_rows (get_rating (columns df)) (rows df) = Inl e"
      using h by (simp add: load_data_rows_Inl)
    then obtain r :: book where "get_rating (columns df) r = Inl e"
      by (blast dest: apply_rows_Inl_from)
    then show "\<exists>c\<in>set indicator_columns. c \<notin> set (columns df) \<and> e = KeyError c"
      by (rule get_rating_Inl_KeyError)
  qed
  have header_only: "load_data (Csv df) = Inl ValueError"
    if h: "rows df = [] \<and> 1 < length (columns df) \<and> ''rating_four'' \<notin> set (columns df)"
  proof -
    from h have "columns df \<noteq> []" by auto
    then show ?thesis using h by (simp add: load_data_header_only)
  qed
  have total: "set indicator_columns \<subseteq> set (columns df) \<longrightarrow> (\<exists>out. load_data (Csv df) = Inr out)"
    by (simp add: load_data_total)
  have whole: "\<forall>out. load_data (Csv df) = Inr out \<longrightarrow> map book.truncate (rows out) = rows df"
    by (simp add: load_data_Inr_rows)
  show ?thesis
    using reader kinds empty with_rows header_only total whole by blast
qed

theorem C4_witness:
  "read_csv Malformed = Inl ParserError \<and>
   load_data Malformed = Inl ParserError \<and>
   columns no_four_df \<noteq> [] \<and> rows no_four_df \<noteq> [] \<and>
   ''rating_four'' \<notin> set (columns no_four_df) \<and>
   load_data (Csv no_four_df) = Inl (KeyError ''rating_four'') \<and>
   rows header_only_no_four_df = [] \<and> 1 < length (columns header_only_no_four_df) \<and>
   ''rating_four'' \<notin> set (columns header_only_no_four_df) \<and>
   load_data (Csv header_only_no_four_df) = Inl ValueError \<and>
   set indicator_columns \<subseteq> set (columns scenario_df) \<and>
   load_data (Csv scenario_df) = Inr scenario_loaded \<and>
   map book.truncate (rows scenario_loaded) = rows scenario_df"
proof -
  have r: "read_csv Malformed = Inl ParserError"
    by (simp add: read_csv_def)
  have l: "load_data (Csv scenario_df) = Inr scenario_loaded"
    by (rule load_data_scenario)
  have f: "load_data (Csv no_four_df) = Inl (KeyError ''rating_four'')"
    by (simp add: no_four_df_def scenario_df_def load_data_def read_csv_def infer_dtypes_def
        apply_axis1_def get_rating_def getitem_def)
  have n: "columns no_four_df \<noteq> []" "rows no_four_df \<noteq> []"
    by (simp_all add: no_four_df_def scenario_df_def)
  have h: "rows header_only_no_four_df = [] \<and> 1 < length (columns header_only_no_four_df) \<and>
      ''rating_four'' \<notin> set (columns header_only_no_four_df)"
    by (simp add: header_only_no_four_df_def no_four_df_def scenario_df_def)
  have i: "set indicator_columns \<subseteq> set (columns scenario_df)"
    by (simp add: indicator_columns_def scenario_df_def)
  from C4_load_failures [of Malformed scenario_df] r l
  have "load_data Malformed = Inl ParserError"
    and "map book.truncate (rows scenario_loaded) = rows scenario_df"
    by blast+
  moreover from C4_load_failures [of Malformed no_four_df] f n
  have "\<exists>c\<in>set indicator_columns. c \<notin> set (columns no_four_df) \<and>
          KeyError ''rating_four'' = KeyError c"
    by blast
  then have "''rating_four'' \<notin> set (columns no_four_df)"
    by auto
  moreover from C4_load_failures [of Malformed header_only_no_four_df] h
  have "load_data (Csv header_only_no_four_df) = Inl ValueError"
    by blast
  ultimately show ?thesis using r l f n h i by simp
qed

section \<open>Claims about the filter\<close>

text \<open>
  C2. For a table that has the columns the filter reads, the filter returns the view whose
  rows are exactly the rows of the table with \<open>price_min \<le> price \<le> price_max\<close> (both
  bounds inclusive), \<open>price_category\<close> among the selected categories and
  \<open>rating_score\<close> among the selected ratings: a record is in the view if and only if
  it is in the table and satisfies the three predicates together.
\<close>

theorem C2_filter_iff:
  assumes "set filter_columns \<subseteq> set (columns df)"
  shows "\<exists>view. filtered_df pr cats rts df = Inr view \<and> columns view = columns df \<and>
           rows view =
             filter (\<lambda>r. fle (fst pr) (price r) \<and> fle (price r) (snd pr) \<and>
                         price_category r \<in> set cats \<and> rating_score r \<in> set rts) (rows df) \<and>
           (\<forall>r. r \<in> set (rows view) \<longleftrightarrow>
                 r \<in> set (rows df) \<and> fle (fst pr) (price r) \<and> fle (price r) (snd pr) \<and>
                 price_category r \<in> set cats \<and> rating_score r \<in> set rts)"
proof -
  have "matches pr cats rts =
          (\<lambda>r. fle (fst pr) (price r) \<and> fle (price r) (snd pr) \<and>
                price_category r \<in> set cats \<and> rating_score r \<in> set rts)"
    by (simp add: matches_def fun_eq_iff)
  then show ?thesis
    using filtered_df_filter [OF assms, of pr cats rts] by auto
qed

theorem C2_witness:
  "set filter_columns \<subseteq> set (columns scenario_loaded) \<and>
   (\<exists>view. filtered_df (Fin 10, Fin 50) [''Low'', ''Medium'', ''High''] [1, 2, 3, 4, 5]
              scenario_loaded = Inr view \<and>
            map title (rows view) = [''A'', ''Bb''])"
proof -
  have h: "set filter_columns \<subseteq> set (columns scenario_loaded)"
    by (simp add: filter_columns_def scenario_loaded_def)
  from C2_filter_iff [OF h, of "(Fin 10, Fin 50)" "[''Low'', ''Medium'', ''High'']" "[1, 2, 3, 4, 5]"]
  show ?thesis using h by (auto simp: scenario_loaded_def)
qed

text \<open>
  C5. With no category selected, and likewise with no rating selected, the filter returns
  the empty view, for every table, price range and other selection: it neither raises nor
  returns all records.
\<close>

theorem C5_empty_selection:
  assumes "set filter_columns \<subseteq> set (columns df)"
  shows "filtered_df pr [] rts df = Inr (df\<lparr>rows := []\<rparr>) \<and>
         filtered_df pr cats [] df = Inr (df\<lparr>rows := []\<rparr>)"
  by (simp add: filtered_df_filter [OF assms] matches_def)

theorem C5_witness:
  "set filter_columns \<subseteq> set (columns scenario_loaded) \<and>
   filtered_df (Fin 0, Fin 100) [] [1, 2, 3, 4, 5] scenario_loaded =
     Inr (scenario_loaded\<lparr>rows := []\<rparr>) \<and>
   filtered_df (Fin 0, Fin 100) [''Low'', ''Medium'', ''High''] [] scenario_loaded =
     Inr (scenario_loaded\<lparr>rows := []\<rparr>)"
proof -
  have h: "set filter_columns \<subseteq> set (columns scenario_loaded)"
    by (simp add: filter_columns_def scenario_loaded_def)
  from C5_empty_selection [OF h] show ?thesis using h by simp
qed

text \<open>
  C6. The rows of \<open>filter(T, C)\<close> are a subsequence of the rows of \<open>T\<close>, and the
  result is a function of the table and of the criteria by value: evaluating the filter
  again with the same table, the same price range and selections that are equal as sets
  gives the identical view.
\<close>

theorem C6_subsequence_pure:
  assumes "set filter_columns \<subseteq> set (columns df)"
    and "set cats' = set cats" and "set rts' = set rts"
  shows "\<exists>view. filtered_df pr cats rts df = Inr view \<and> subseq (rows view) (rows df) \<and>
           filtered_df pr cats' rts' df = Inr view"
  using filtered_df_set_cong [OF assms(2,3), of pr df]
  by (simp add: filtered_df_filter [OF assms(1)])

theorem C6_witness:
  "set filter_columns \<subseteq> set (columns scenario_loaded) \<and>
   set [''Medium'', ''Low'', ''Low''] = set [''Low'', ''Medium''] \<and>
   set [4, 3, 5 :: int] = set [3, 4, 5] \<and>
   (\<exists>view. filtered_df (Fin 0, Fin 100) [''Low'', ''Medium''] [3, 4, 5] scenario_loaded = Inr view \<and>
            subseq (rows view) (rows scenario_loaded) \<and>
            filtered_df (Fin 0, Fin 100) [''Medium'', ''Low'', ''Low''] [4, 3, 5] scenario_loaded
              = Inr view)"
proof -
  have h: "set filter_columns \<subseteq> set (columns scenario_loaded)"
    by (simp add: filter_columns_def scenario_loaded_def)
  have c: "set [''Medium'', ''Low'', ''Low''] = set [''Low'', ''Medium'']" by auto
  have r: "set [4, 3, 5 :: int] = set [3, 4, 5]" by auto
  from C6_subsequence_pure [OF h c r, of "(Fin 0, Fin 100)"] show ?thesis
    using h c r by blast
qed

section \<open>Claims about the aggregations\<close>

text \<open>
  C3 claims that on an empty view both the mean price and the mean title length are 0.
  On the empty view the filter gives for the scenario with no category selected, the
  guarded \<open>avg_len\<close> is 0, but the unguarded mean of the price column is NaN.
\<close>

theorem C3_empty_view_means:
  "filtered_df (Fin 0, Fin 100) [] [1, 2, 3, 4, 5] scenario_loaded =
     Inr (scenario_loaded\<lparr>rows := []\<rparr>) \<and>
   avg_price (scenario_loaded\<lparr>rows := []\<rparr>) = Inr NaN \<and>
   avg_len (scenario_loaded\<lparr>rows := []\<rparr>) = Inr (Fin 0)"
proof -
  have "set filter_columns \<subseteq> set (columns scenario_loaded)"
    by (simp add: filter_columns_def scenario_loaded_def)
  then have "filtered_df (Fin 0, Fin 100) [] [1, 2, 3, 4, 5] scenario_loaded =
     Inr (scenario_loaded\<lparr>rows := []\<rparr>)"
    by (simp add: filtered_df_filter matches_def)
  moreover have "avg_price (scenario_loaded\<lparr>rows := []\<rparr>) = Inr NaN"
    by (rule avg_price_empty) (simp_all add: scenario_loaded_def)
  moreover have "avg_len (scenario_loaded\<lparr>rows := []\<rparr>) = Inr (Fin 0)"
    by (rule avg_len_empty) simp
  ultimately show ?thesis by simp
qed

text \<open>
  C10, as stated, fails on the empty view of a table loaded from a file with a header
  line only: the load returns, the filter returns the empty view, and the leaderboard
  raises TypeError, since the price column of such a table has dtype object. It also
  fails on the empty view of a table loaded from a file without a title column: the
  column selection of the leaderboard raises KeyError.
\<close>

theorem C10_counterexample:
  "load_data (Csv header_only_df) = Inr header_only_loaded \<and>
   filtered_df (NaN, NaN) [] [] header_only_loaded = Inr header_only_loaded \<and>
   rows header_only_loaded = [] \<and>
   top_10 header_only_loaded = Inl TypeError \<and>
   load_data (Csv no_title_df) = Inr no_title_loaded \<and>
   filtered_df (Fin 10, Fin 200) [] [3, 4, 5] no_title_loaded
     = Inr (no_title_loaded\<lparr>rows := []\<rparr>) \<and>
   top_10 (no_title_loaded\<lparr>rows := []\<rparr>) = Inl (KeyError ''title'')"
proof -
  have "set filter_columns \<subseteq> set (columns no_title_loaded)"
    by (simp add: filter_columns_def no_title_loaded_def)
  then have "filtered_df (Fin 10, Fin 200) [] [3, 4, 5] no_title_loaded
     = Inr (no_title_loaded\<lparr>rows := []\<rparr>)"
    by (simp add: filtered_df_filter matches_def)
  moreover have "top_10 (no_title_loaded\<lparr>rows := []\<rparr>) = Inl (KeyError ''title'')"
    by (simp add: top_10_def nlargest_def title_price_def no_title_loaded_def
        scenario_loaded_def sort_desc_def)
  moreover note load_data_no_title
  moreover
  have "set filter_columns \<subseteq> set (columns header_only_loaded)"
    by (simp add: filter_columns_def header_only_loaded_def)
  then have "filtered_df (NaN, NaN) [] [] header_only_loaded = Inr header_only_loaded"
    by (simp add: filtered_df_filter) (simp add: header_only_loaded_def)
  moreover have "top_10 header_only_loaded = Inl TypeError"
    by (simp add: top_10_def nlargest_def header_only_loaded_def)
  moreover have "rows header_only_loaded = []"
    by (simp add: header_only_loaded_def)
  ultimately show ?thesis
    using load_data_header_only_df by simp
qed

text \<open>
  C10, amended. For every view the filter returns of a table loaded from a file that has
  at least one data row and a title column, the leaderboard returns: it has exactly
  \<open>min(10, n)\<close> records for a view of \<open>n\<close> records, its records are records of the
  view, the price of every selected record is at least the price of every record left
  out, and a view of fewer than ten records (an empty one included) is returned whole.
\<close>

theorem C10_top_10:
  assumes "load_data (Csv f) = Inr df" and "rows f \<noteq> []" and "''title'' \<in> set (columns f)"
    and "filtered_df pr cats rts df = Inr view"
  shows "\<exists>sel t. nlargest 10 ''price'' price (price_dtype view) view = Inr sel \<and>
           top_10 view = Inr t \<and>
           rows t = map (\<lambda>r. (title r, price r)) (rows sel) \<and>
           length (rows t) = min 10 (length (rows view)) \<and>
           mset (rows sel) \<subseteq># mset (rows view) \<and>
           (\<forall>r\<in>#mset (rows sel). \<forall>r'\<in>#mset (rows view) - mset (rows sel).
              fge (price r) (price r')) \<and>
           (length (rows view) < 10 \<longrightarrow> mset (rows sel) = mset (rows view))"
proof -
  have "''title'' \<in> set (columns df)"
    using load_data_columns [OF assms(1)] assms(3) by blast
  moreover have "price_dtype df = Float64"
    using load_data_price_dtype [OF assms(1)] assms(2) by simp
  ultimately show ?thesis
    using assms(4) by (intro top_10_float64)
qed

theorem C10_witness:
  "load_data (Csv scenario_df) = Inr scenario_loaded \<and> rows scenario_df \<noteq> [] \<and>
   ''title'' \<in> set (columns scenario_df) \<and>
   filtered_df (Fin 10, Fin 200) [] [3, 4, 5] scenario_loaded
     = Inr (scenario_loaded\<lparr>rows := []\<rparr>) \<and>
   (\<exists>t. top_10 (scenario_loaded\<lparr>rows := []\<rparr>) = Inr t \<and> length (rows t) = 0) \<and>
   load_data (Csv twelve_df) = Inr twelve_loaded \<and> rows twelve_df \<noteq> [] \<and>
   ''title'' \<in> set (columns twelve_df) \<and>
   filtered_df (Fin 0, Fin 10) [''Low''] [4] twelve_loaded = Inr twelve_loaded \<and>
   (\<exists>t. top_10 twelve_loaded = Inr t \<and> length (rows t) = 10)"
proof -
  have f1: "filtered_df (Fin 10, Fin 200) [] [3, 4, 5] scenario_loaded
              = Inr (scenario_loaded\<lparr>rows := []\<rparr>)"
    by (simp add: filtered_df_filter filter_columns_def matches_def scenario_loaded_def)
  have r1: "rows scenario_df \<noteq> []" and c1: "''title'' \<in> set (columns scenario_df)"
    by (simp_all add: scenario_df_def)
  have f2: "filtered_df (Fin 0, Fin 10) [''Low''] [4] twelve_loaded = Inr twelve_loaded"
    by (simp add: filtered_df_filter filter_columns_def matches_def twelve_loaded_def)
  have r2: "rows twelve_df \<noteq> []" and c2: "''title'' \<in> set (columns twelve_df)"
    by (simp_all add: twelve_df_def)
  have l2: "length (rows twelve_loaded) = 12" by (simp add: twelve_loaded_def)
  from C10_top_10 [OF load_data_scenario r1 c1 f1]
  have "\<exists>t. top_10 (scenario_loaded\<lparr>rows := []\<rparr>) = Inr t \<and> length (rows t) = 0"
    by auto
  moreover from C10_top_10 [OF load_data_twelve r2 c2 f2] l2
  have "\<exists>t. top_10 twelve_loaded = Inr t \<and> length (rows t) = 10"
    by auto
  ultimately show ?thesis
    using load_data_scenario load_data_twelve f1 r1 c1 f2 r2 c2 by blast
qed

end
